theory Spec2Isabelle
  imports Complex_Main "HOL-Library.Char_ord" "HOL-Library.List_Lexorder" "HOL-Library.Multiset"
begin

section \<open>Company intelligence platform: the embedding\<close>

text \<open>
  A shallow embedding of the Python sources \<^verbatim>\<open>app/data_sources.py\<close>,
  \<^verbatim>\<open>app/llm_enrichment.py\<close>, \<^verbatim>\<open>app/database.py\<close> and \<^verbatim>\<open>app/pipeline.py\<close>.
  Conventions used throughout:
  \<^item> a leading underscore of a Python name is dropped (\<^verbatim>\<open>_get_cached\<close> is \<open>get_cached\<close>);
  \<^item> every reading of \<^verbatim>\<open>datetime.utcnow()\<close> is an explicit argument;
  \<^item> a \<^verbatim>\<open>datetime\<close> is an integer number of microseconds (its resolution), a
    \<^verbatim>\<open>timedelta\<close> a difference of such numbers;
  \<^item> a Python \<^verbatim>\<open>float\<close> is a real number (every finite float is one);
  \<^item> an exception is a value \<open>Exception msg\<close>; for an exception that Python itself raises
    \<open>msg\<close> is what \<^verbatim>\<open>str(e)\<close> returns, for an \<^verbatim>\<open>IntegrityError\<close> of the database it is the
    constraint that failed (the library's own message goes on with the SQL statement); a
    function that may raise returns a sum with the exception on the left.
\<close>

subsection \<open>Time\<close>

type_synonym time = int

definition timedelta_seconds :: "int \<Rightarrow> int" where
  "timedelta_seconds n = n * 1000000"

definition timedelta_days :: "int \<Rightarrow> int" where
  "timedelta_days n = n * 86400 * 1000000"

subsection \<open>The cache of \<^verbatim>\<open>data_sources.py\<close>\<close>

text \<open>
  \<^verbatim>\<open>_cache = {}\<close> maps a key to a pair \<^verbatim>\<open>(data, timestamp)\<close>. The module-level dictionary
  is passed explicitly and returned by both functions; \<^verbatim>\<open>_get_cached\<close> contains no
  assignment to it and no deletion from it.
\<close>

type_synonym 'v cache = "string \<rightharpoonup> ('v \<times> time)"

definition CACHE_TTL :: int where
  "CACHE_TTL = 300"

definition get_cached :: "'v cache \<Rightarrow> time \<Rightarrow> string \<Rightarrow> 'v option \<times> 'v cache" where
  "get_cached cache now key =
     (case cache key of
        Some (data, timestamp) \<Rightarrow>
          if now - timestamp < timedelta_seconds CACHE_TTL then (Some data, cache)
          else (None, cache)
      | None \<Rightarrow> (None, cache))"

definition set_cache :: "'v cache \<Rightarrow> time \<Rightarrow> string \<Rightarrow> 'v \<Rightarrow> 'v cache" where
  "set_cache cache now key data = cache(key \<mapsto> (data, now))"

text \<open>
  A history of calls on the cache, oldest first, and the cache it leaves behind. Each call
  carries the clock reading it makes.
\<close>

datatype 'v cache_call = SetCache string 'v time | GetCached string time

fun run_call :: "'v cache \<Rightarrow> 'v cache_call \<Rightarrow> 'v cache" where
  "run_call c (SetCache key data now) = set_cache c now key data"
| "run_call c (GetCached key now) = snd (get_cached c now key)"

definition run_calls :: "'v cache \<Rightarrow> 'v cache_call list \<Rightarrow> 'v cache" where
  "run_calls c calls = foldl run_call c calls"

text \<open>The most recent \<^verbatim>\<open>_set_cache\<close> for a key in a history: its value and its time.\<close>

fun last_set :: "string \<Rightarrow> 'v cache_call list \<Rightarrow> ('v \<times> time) option" where
  "last_set key [] = None"
| "last_set key (c # cs) =
     (case last_set key cs of
        Some r \<Rightarrow> Some r
      | None \<Rightarrow> (case c of
                   SetCache k data now \<Rightarrow> if k = key then Some (data, now) else None
                 | GetCached k now \<Rightarrow> None))"

subsection \<open>Strings, exceptions, dictionaries\<close>


definition lower_char :: "char \<Rightarrow> char" where
  "lower_char c =
     (case map_of (zip ''ABCDEFGHIJKLMNOPQRSTUVWXYZ'' ''abcdefghijklmnopqrstuvwxyz'') c of
        Some l \<Rightarrow> l
      | None \<Rightarrow> c)"


definition lower :: "string \<Rightarrow> string" where
  "lower s = map lower_char s"

fun starts_with :: "string \<Rightarrow> string \<Rightarrow> bool" where
  "starts_with [] s = True"
| "starts_with (c # w) [] = False"
| "starts_with (c # w) (d # s) = (c = d \<and> starts_with w s)"

fun contains :: "string \<Rightarrow> string \<Rightarrow> bool" where
  "contains w [] = (w = [])"
| "contains w (c # s) = (starts_with w (c # s) \<or> contains w s)"

datatype exn = Exception string

fun message :: "exn \<Rightarrow> string" where
  "message (Exception m) = m"

text \<open>
  One entry of a Python dictionary with a fixed set of possible keys: the key is absent,
  bound to \<^verbatim>\<open>None\<close>, or bound to a value. \<open>dict_get\<close> is \<^verbatim>\<open>d.get(k)\<close>, \<open>dict_get_default\<close>
  is \<^verbatim>\<open>d.get(k, default)\<close>; in both the result \<open>None\<close> is Python's \<^verbatim>\<open>None\<close>.
\<close>

datatype 'a field = Absent | Null | Val 'a

fun dict_get :: "'a field \<Rightarrow> 'a option" where
  "dict_get Absent = None"
| "dict_get Null = None"
| "dict_get (Val v) = Some v"

fun dict_get_default :: "'a field \<Rightarrow> 'a \<Rightarrow> 'a option" where
  "dict_get_default Absent d = Some d"
| "dict_get_default Null d = None"
| "dict_get_default (Val v) d = Some v"

text \<open>Truthiness of an optional string: \<^verbatim>\<open>None\<close> and the empty string are false.\<close>

fun truthy :: "string option \<Rightarrow> bool" where
  "truthy None = False"
| "truthy (Some s) = (s \<noteq> [])"

subsection \<open>Floats and rounding\<close>

text \<open>
  \<^verbatim>\<open>round(x, n)\<close>: to \<open>n\<close> decimals, a tie going to the even neighbour.
\<close>

definition round_half_even :: "real \<Rightarrow> int" where
  "round_half_even x =
     (let f = \<lfloor>x\<rfloor>; d = x - of_int f in
      if d < 1 / 2 then f else if 1 / 2 < d then f + 1 else if even f then f else f + 1)"

definition py_round :: "real \<Rightarrow> nat \<Rightarrow> real" where
  "py_round x n = of_int (round_half_even (x * 10 ^ n)) / 10 ^ n"

text \<open>
  What \<^verbatim>\<open>float(...)\<close> can return: a finite number, an infinity or a NaN.
  \<open>clamp_unit x\<close> is \<^verbatim>\<open>max(-1.0, min(1.0, x))\<close>. Python's \<^verbatim>\<open>min(a, b)\<close> is \<^verbatim>\<open>b if b < a else a\<close>
  and \<^verbatim>\<open>max(a, b)\<close> is \<^verbatim>\<open>b if b > a else a\<close>; every comparison with a NaN is false. So
  \<^verbatim>\<open>min(1.0, nan)\<close> and \<^verbatim>\<open>min(1.0, inf)\<close> are \<^verbatim>\<open>1.0\<close>, and \<^verbatim>\<open>min(1.0, -inf)\<close> is \<^verbatim>\<open>-inf\<close>, which
  \<^verbatim>\<open>max(-1.0, _)\<close> replaces by \<^verbatim>\<open>-1.0\<close>.
\<close>

datatype pyfloat = Finite real | PosInf | NegInf | NaN

fun clamp_unit :: "pyfloat \<Rightarrow> real" where
  "clamp_unit (Finite x) = (let m = (if x < 1 then x else 1) in if m > - 1 then m else - 1)"
| "clamp_unit PosInf = 1"
| "clamp_unit NegInf = - 1"
| "clamp_unit NaN = 1"

subsection \<open>Articles and the fallback enrichment of \<^verbatim>\<open>llm_enrichment.py\<close>\<close>

text \<open>
  An article is the dictionary the news source returns, with the six keys that both
  \<^verbatim>\<open>fetch_news_articles\<close> and \<^verbatim>\<open>_get_mock_news\<close> produce. The news source can bind a key to
  \<^verbatim>\<open>None\<close>: \<^verbatim>\<open>article.get("title", "")\<close> is \<^verbatim>\<open>None\<close> when the provider sends a null title, and
  \<^verbatim>\<open>article.get("content") or article.get("description", "")\<close> is \<^verbatim>\<open>None\<close> when both are null.
\<close>

record article =
  title :: "string field"
  source :: "string field"
  author :: "string field"
  url :: "string field"
  published_at :: "time field"
  content :: "string field"

text \<open>A JSON value as \<^verbatim>\<open>json.loads\<close> returns it; an object lists its keys once each.\<close>

datatype json =
  JNull | JBool bool | JInt int | JFloat pyfloat | JStr string
  | JArr "json list" | JObj "(string \<times> json) list"

record enrichment =
  sentiment_score :: real
  sentiment_label :: string
  classification :: string
  market_impact :: string
  key_insights :: "json option"

definition positive_keywords :: "string list" where
  "positive_keywords =
     [''growth'', ''beats'', ''exceeds'', ''upgrade'', ''strong'', ''success'', ''innovation'',
      ''profit'']"

definition negative_keywords :: "string list" where
  "negative_keywords =
     [''loss'', ''decline'', ''scrutiny'', ''investigation'', ''concern'', ''risk'', ''lawsuit'',
      ''miss'']"

text \<open>\<^verbatim>\<open>sum(1 for word in keywords if word in title)\<close>\<close>

definition keyword_count :: "string list \<Rightarrow> string \<Rightarrow> nat" where
  "keyword_count keywords text = length (filter (\<lambda>word. contains word text) keywords)"

text \<open>\<^verbatim>\<open>any(word in title for word in words)\<close>\<close>

definition any_in :: "string list \<Rightarrow> string \<Rightarrow> bool" where
  "any_in keywords text = list_ex (\<lambda>word. contains word text) keywords"

text \<open>
  \<^verbatim>\<open>(article.get("title", "") + " " + article.get("content", "")).lower()\<close>. The sum is
  evaluated from the left, and \<^verbatim>\<open>+\<close> between \<^verbatim>\<open>None\<close> and a string raises \<^verbatim>\<open>TypeError\<close>
  with the messages below.
\<close>

definition article_text :: "article \<Rightarrow> exn + string" where
  \<open>article_text a =
     (case dict_get_default (title a) [] of
        None \<Rightarrow>
          Inl (Exception
            (''unsupported operand type(s) for +: 'NoneType' and 'str'' @ [CHR 0x27]))
      | Some t \<Rightarrow>
          (case dict_get_default (content a) [] of
             None \<Rightarrow> Inl (Exception ''can only concatenate str (not "NoneType") to str'')
           | Some c \<Rightarrow> Inr (lower (t @ '' '' @ c))))\<close>

definition classify :: "string \<Rightarrow> string" where
  "classify text =
     (if any_in [''earnings'', ''revenue'', ''profit'', ''quarter''] text then ''earnings''
      else if any_in [''product'', ''launch'', ''announce'', ''innovation''] text then ''product''
      else if any_in [''lawsuit'', ''legal'', ''regulatory'', ''investigation''] text then ''legal''
      else if any_in [''ceo'', ''executive'', ''leadership'', ''management''] text then ''executive''
      else if any_in [''market'', ''stock'', ''analyst'', ''upgrade''] text then ''market''
      else ''other'')"

definition mock_insights :: "string \<Rightarrow> json" where
  "mock_insights cls =
     JObj [(''summary'', JStr (''Article discusses '' @ cls @ '' developments.'')),
           (''risks'', JArr [JStr ''Market volatility'']),
           (''opportunities'', JArr [JStr ''Potential growth areas'']),
           (''action_items'', JArr [JStr ''Monitor for updates''])]"

definition mock_enrich_article :: "article \<Rightarrow> exn + enrichment" where
  "mock_enrich_article a =
     (case article_text a of
        Inl e \<Rightarrow> Inl e
      | Inr text \<Rightarrow>
          (let positive_count = keyword_count positive_keywords text;
               negative_count = keyword_count negative_keywords text;
               (score, label) =
                 (if positive_count > negative_count
                    then (3 / 10 + real positive_count * (1 / 10), ''positive'')
                  else if negative_count > positive_count
                    then (- (3 / 10) - real negative_count * (1 / 10), ''negative'')
                  else (0, ''neutral''));
               score' = max (- 1) (min 1 score);
               cls = classify text
           in Inr \<lparr> sentiment_score = py_round score' 2,
                     sentiment_label = label,
                     classification = cls,
                     market_impact = ''medium'',
                     key_insights = Some (mock_insights cls) \<rparr>))"

subsection \<open>The primary enrichment path\<close>

text \<open>
  What the environment decides in \<^verbatim>\<open>enrich_news_article\<close>: whether a client exists
  (\<^verbatim>\<open>_get_anthropic_client()\<close> is not \<^verbatim>\<open>None\<close>), and how the request ends: some exception
  from the call or from reading the answer, a \<^verbatim>\<open>JSONDecodeError\<close> from \<^verbatim>\<open>json.loads\<close>, or a
  parsed JSON value. \<open>parse_float\<close> is \<^verbatim>\<open>float\<close> on a string, \<open>None\<close> when it raises
  \<^verbatim>\<open>ValueError\<close>.
\<close>

datatype llm_outcome = LlmError exn | LlmNotJson | LlmJson json

text \<open>
  \<^verbatim>\<open>float(v)\<close> for a JSON value: an integer too large for a float raises \<^verbatim>\<open>OverflowError\<close>,
  \<^verbatim>\<open>None\<close>, a list and a dict raise \<^verbatim>\<open>TypeError\<close>.
\<close>

fun py_float :: "(string \<Rightarrow> pyfloat option) \<Rightarrow> json \<Rightarrow> pyfloat option" where
  "py_float parse_float (JInt n) = (if \<bar>real_of_int n\<bar> < 2 ^ 1024 then Some (Finite (real_of_int n)) else None)"
| "py_float parse_float (JFloat x) = Some x"
| "py_float parse_float (JBool b) = Some (Finite (if b then 1 else 0))"
| "py_float parse_float (JStr s) = parse_float s"
| "py_float parse_float JNull = None"
| "py_float parse_float (JArr xs) = None"
| "py_float parse_float (JObj kvs) = None"

text \<open>\<^verbatim>\<open>result.get(key, default).lower()\<close>: \<open>None\<close> when the value is not a string.\<close>

definition get_lower :: "(string \<times> json) list \<Rightarrow> string \<Rightarrow> string \<Rightarrow> string option" where
  "get_lower kvs key dflt =
     (case map_of kvs key of
        None \<Rightarrow> Some (lower dflt)
      | Some (JStr s) \<Rightarrow> Some (lower s)
      | Some _ \<Rightarrow> None)"

text \<open>
  The block under \<^verbatim>\<open># Validate and normalize\<close>; \<open>None\<close> when one of its lines raises
  (\<^verbatim>\<open>result\<close> is not a dict, \<^verbatim>\<open>float\<close> fails, a label is not a string).
\<close>

definition normalize_result :: "(string \<Rightarrow> pyfloat option) \<Rightarrow> json \<Rightarrow> enrichment option" where
  "normalize_result parse_float result =
     (case result of
        JObj kvs \<Rightarrow>
          (case py_float parse_float (case map_of kvs ''sentiment_score'' of None \<Rightarrow> JInt 0 | Some v \<Rightarrow> v) of
             None \<Rightarrow> None
           | Some x \<Rightarrow>
               (case get_lower kvs ''sentiment_label'' ''neutral'' of
                  None \<Rightarrow> None
                | Some label \<Rightarrow>
                    (case get_lower kvs ''classification'' ''other'' of
                       None \<Rightarrow> None
                     | Some cls \<Rightarrow>
                         (case get_lower kvs ''market_impact'' ''medium'' of
                            None \<Rightarrow> None
                          | Some impact \<Rightarrow>
                              Some \<lparr> sentiment_score = clamp_unit x,
                                     sentiment_label = label,
                                     classification = cls,
                                     market_impact = impact,
                                     key_insights =
                                       (case map_of kvs ''key_insights'' of
                                          None \<Rightarrow> None
                                        | Some JNull \<Rightarrow> None
                                        | Some v \<Rightarrow> Some v) \<rparr>))))
      | _ \<Rightarrow> None)"

text \<open>
  \<^verbatim>\<open>enrich_news_article\<close>. Without a client the fallback runs outside any \<^verbatim>\<open>try\<close>; with a
  client every exception of the primary path is caught and the fallback runs in the
  handler. An exception of the fallback itself propagates in both cases.
\<close>

definition enrich_news_article ::
    "bool \<Rightarrow> llm_outcome \<Rightarrow> (string \<Rightarrow> pyfloat option) \<Rightarrow> article \<Rightarrow> string \<Rightarrow> exn + enrichment" where
  "enrich_news_article client outcome parse_float a company_name =
     (if \<not> client then mock_enrich_article a
      else (case outcome of
              LlmError e \<Rightarrow> mock_enrich_article a
            | LlmNotJson \<Rightarrow> mock_enrich_article a
            | LlmJson result \<Rightarrow>
                (case normalize_result parse_float result of
                   None \<Rightarrow> mock_enrich_article a
                 | Some r \<Rightarrow> Inr r)))"

text \<open>The string a dictionary entry contributes when \<^verbatim>\<open>get(key, "")\<close> returns a string.\<close>

fun field_or_empty :: "string field \<Rightarrow> string" where
  "field_or_empty Absent = []"
| "field_or_empty Null = []"
| "field_or_empty (Val v) = v"

text \<open>Two articles used as concrete inputs below; the second has a null content.\<close>

definition article_regulatory :: article where
  "article_regulatory =
     \<lparr> title = Val ''Acme Faces Regulatory Scrutiny Over Data Practices'',
       source = Val ''Reuters'', author = Val ''Legal Correspondent'',
       url = Val ''https://example.com/news/acme-regulatory'',
       published_at = Val 0,
       content = Val ''Legal experts suggest the investigation could take several months.'' \<rparr>"

definition article_no_content :: article where
  "article_no_content =
     \<lparr> title = Val ''Acme profit beats forecasts'',
       source = Val ''Wire'', author = Null,
       url = Val ''https://example.com/news/acme-profit'',
       published_at = Null,
       content = Null \<rparr>"

subsection \<open>The news source of \<^verbatim>\<open>data_sources.py\<close>\<close>

text \<open>
  \<^verbatim>\<open>_get_mock_news\<close>. The list literal reads the clock once per article, in order; \<open>utcnow i\<close>
  is the reading for the article at index \<open>i\<close>.
\<close>

definition get_mock_news :: "(nat \<Rightarrow> time) \<Rightarrow> string \<Rightarrow> string \<Rightarrow> article list" where
  "get_mock_news utcnow company_name symbol =
     [\<lparr> title = Val (company_name @ '' Reports Strong Q4 Earnings, Beats Analyst Expectations''),
        source = Val ''Financial Times'',
        author = Val ''Market Reporter'',
        url = Val (''https://example.com/news/'' @ lower symbol @ ''-earnings''),
        published_at = Val (utcnow 0 - timedelta_days 1),
        content = Val (company_name @ '' announced quarterly earnings that exceeded Wall Street expectations. Revenue grew 15% year-over-year, driven by strong demand in core business segments. The company also raised its full-year guidance, citing improved market conditions and successful cost optimization initiatives.'') \<rparr>,
      \<lparr> title = Val (company_name @ '' Announces New AI-Powered Product Line''),
        source = Val ''TechCrunch'',
        author = Val ''Tech Editor'',
        url = Val (''https://example.com/news/'' @ lower symbol @ ''-ai-product''),
        published_at = Val (utcnow 1 - timedelta_days 3),
        content = Val (''In a move to strengthen its competitive position, '' @ company_name @ '' unveiled a new suite of AI-powered products today. The company's CEO stated that this represents a significant investment in emerging technologies and positions the firm for long-term growth in the rapidly evolving market landscape.'') \<rparr>,
      \<lparr> title = Val (''Analysts Upgrade '' @ company_name @ '' Following Market Expansion''),
        source = Val ''Bloomberg'',
        author = Val ''Senior Analyst'',
        url = Val (''https://example.com/news/'' @ lower symbol @ ''-upgrade''),
        published_at = Val (utcnow 2 - timedelta_days 5),
        content = Val (''Several major investment banks have upgraded their rating on '' @ company_name @ '' stock following the company's successful expansion into Asian markets. Analysts cite strong execution and favorable regulatory environment as key factors. Price targets have been raised by an average of 12%.'') \<rparr>,
      \<lparr> title = Val (company_name @ '' Faces Regulatory Scrutiny Over Data Practices''),
        source = Val ''Reuters'',
        author = Val ''Legal Correspondent'',
        url = Val (''https://example.com/news/'' @ lower symbol @ ''-regulatory''),
        published_at = Val (utcnow 3 - timedelta_days 2),
        content = Val (''Regulators have opened an inquiry into '' @ company_name @ '''s data handling practices. While the company maintains it operates in full compliance with all applicable laws, investors are watching closely. Legal experts suggest the investigation could take several months to conclude.'') \<rparr>,
      \<lparr> title = Val (company_name @ '' CEO Discusses Future Strategy in Investor Call''),
        source = Val ''CNBC'',
        author = Val ''Business Reporter'',
        url = Val (''https://example.com/news/'' @ lower symbol @ ''-strategy''),
        published_at = Val (utcnow 4 - timedelta_days 4),
        content = Val (''During the latest investor call, '' @ company_name @ '''s leadership outlined ambitious plans for the coming year. Key initiatives include expanding digital capabilities, pursuing strategic acquisitions, and increasing R&D spending by 20%. Management expressed confidence in achieving double-digit growth.'') \<rparr>]"

text \<open>
  One article of the provider's answer, as parsed JSON. \<open>r_source\<close> is the value under
  \<^verbatim>\<open>"source"\<close>: absent, null, or a dict whose \<^verbatim>\<open>"name"\<close> entry is given.
\<close>

record raw_article =
  r_title :: "string field"
  r_source :: "string field field"
  r_author :: "string field"
  r_url :: "string field"
  r_publishedAt :: "string field"
  r_content :: "string field"
  r_description :: "string field"

text \<open>
  How the HTTP request of \<^verbatim>\<open>fetch_news_articles\<close> ends: an exception (from the request,
  \<^verbatim>\<open>raise_for_status\<close> or \<^verbatim>\<open>response.json()\<close>), or a JSON object with its \<^verbatim>\<open>"status"\<close> and
  \<^verbatim>\<open>"articles"\<close> entries.
\<close>

datatype news_response =
  RequestFailed
  | Response "string field" "raw_article list field"

text \<open>
  The environment of one call: the credential, the readings of the clock (in
  \<^verbatim>\<open>_get_cached\<close>, in \<^verbatim>\<open>_set_cache\<close>, in \<^verbatim>\<open>_get_mock_news\<close>), the answer of the provider, and
  \<^verbatim>\<open>datetime.fromisoformat\<close> (\<open>None\<close> when it raises \<^verbatim>\<open>ValueError\<close>; the replacement of a
  final \<^verbatim>\<open>Z\<close> is part of it).
\<close>

record news_env =
  NEWS_API_KEY :: string
  utcnow_get :: time
  utcnow_set :: time
  utcnow_mock :: "nat \<Rightarrow> time"
  response :: news_response
  fromisoformat :: "string \<Rightarrow> time option"

definition parse_date :: "(string \<Rightarrow> time option) \<Rightarrow> string option \<Rightarrow> time field" where
  "parse_date fromiso date_str =
     (case date_str of
        None \<Rightarrow> Null
      | Some s \<Rightarrow> if s = [] then Null else (case fromiso s of None \<Rightarrow> Null | Some t \<Rightarrow> Val t))"

fun of_option :: "'a option \<Rightarrow> 'a field" where
  "of_option None = Null"
| "of_option (Some v) = Val v"

text \<open>
  The dictionary built in the loop over \<^verbatim>\<open>articles\<close>; \<open>None\<close> when
  \<^verbatim>\<open>article.get("source", {}).get("name")\<close> raises because the source is null.
\<close>

definition transform_article :: "(string \<Rightarrow> time option) \<Rightarrow> raw_article \<Rightarrow> article option" where
  "transform_article fromiso r =
     (case r_source r of
        Null \<Rightarrow> None
      | src \<Rightarrow>
          Some \<lparr> title = of_option (dict_get_default (r_title r) []),
                 source = (case src of Val d \<Rightarrow> of_option (dict_get d) | _ \<Rightarrow> Null),
                 author = of_option (dict_get (r_author r)),
                 url = of_option (dict_get (r_url r)),
                 published_at = parse_date fromiso (dict_get (r_publishedAt r)),
                 content =
                   (if truthy (dict_get (r_content r)) then of_option (dict_get (r_content r))
                    else of_option (dict_get_default (r_description r) [])) \<rparr>)"

fun transform_all :: "(string \<Rightarrow> time option) \<Rightarrow> raw_article list \<Rightarrow> article list option" where
  "transform_all fromiso [] = Some []"
| "transform_all fromiso (r # rs) =
     (case transform_article fromiso r of
        None \<Rightarrow> None
      | Some a \<Rightarrow> (case transform_all fromiso rs of None \<Rightarrow> None | Some as \<Rightarrow> Some (a # as)))"

text \<open>\<^verbatim>\<open>str(n)\<close> for an integer, and the cache key \<^verbatim>\<open>f"news_{symbol}_{days}"\<close>.\<close>

function str_nat :: "nat \<Rightarrow> string" where
  "str_nat n =
     (if n < 10 then [''0123456789'' ! n]
      else str_nat (n div 10) @ [''0123456789'' ! (n mod 10)])"
  by pat_completeness auto
termination
  by (relation "measure id") auto

definition str_int :: "int \<Rightarrow> string" where
  "str_int i = (if i < 0 then ''-'' @ str_nat (nat (- i)) else str_nat (nat i))"

definition news_cache_key :: "string \<Rightarrow> int \<Rightarrow> string" where
  "news_cache_key symbol days = ''news_'' @ symbol @ ''_'' @ str_int days"

text \<open>
  \<^verbatim>\<open>fetch_news_articles\<close>, returning the articles and the cache. The request parameters
  (query, date window, \<^verbatim>\<open>pageSize = max_articles\<close>) only go into the HTTP request, whose
  answer is given by the environment.
\<close>

definition fetch_news_articles ::
    "news_env \<Rightarrow> article list cache \<Rightarrow> string \<Rightarrow> string \<Rightarrow> int \<Rightarrow> int
      \<Rightarrow> article list \<times> article list cache" where
  "fetch_news_articles env cache company_name symbol days max_articles =
     (if NEWS_API_KEY env = [] then (get_mock_news (utcnow_mock env) company_name symbol, cache)
      else
        let cache_key = news_cache_key symbol days;
            (cached, cache1) = get_cached cache (utcnow_get env) cache_key
        in (case cached of
              Some (a # as) \<Rightarrow> (a # as, cache1)
            | _ \<Rightarrow>
                (case response env of
                   RequestFailed \<Rightarrow> (get_mock_news (utcnow_mock env) company_name symbol, cache1)
                 | Response status articles \<Rightarrow>
                     if status \<noteq> Val ''ok''
                       then (get_mock_news (utcnow_mock env) company_name symbol, cache1)
                     else
                       (case dict_get_default articles [] of
                          None \<Rightarrow> (get_mock_news (utcnow_mock env) company_name symbol, cache1)
                        | Some raws \<Rightarrow>
                            (case transform_all (fromisoformat env) raws of
                               None \<Rightarrow>
                                 (get_mock_news (utcnow_mock env) company_name symbol, cache1)
                             | Some result \<Rightarrow>
                                 (result, set_cache cache1 (utcnow_set env) cache_key result))))))"

text \<open>Two environments without a credential that differ only in the clock.\<close>

definition env_no_key :: "time \<Rightarrow> news_env" where
  "env_no_key t =
     \<lparr> NEWS_API_KEY = [], utcnow_get = t, utcnow_set = t, utcnow_mock = (\<lambda>i. t),
       response = RequestFailed, fromisoformat = (\<lambda>s. None) \<rparr>"

subsection \<open>The tables of \<^verbatim>\<open>models.py\<close>\<close>

text \<open>
  The rows of \<^verbatim>\<open>CompanyDB\<close>, \<^verbatim>\<open>StockDataDB\<close> and \<^verbatim>\<open>NewsArticleDB\<close>, with the column types and
  nullability of \<^verbatim>\<open>models.py\<close>: a nullable column is an option. Each table is the list of
  its rows in insertion order. Constraints of the schema: \<^verbatim>\<open>companies.symbol\<close> is the
  primary key (not null, unique), \<^verbatim>\<open>companies.name\<close> and \<^verbatim>\<open>news_articles.title\<close> are not
  null; there is no uniqueness constraint on \<^verbatim>\<open>stock_data\<close> or on \<^verbatim>\<open>news_articles.url\<close>.
  Foreign keys are not enforced by SQLite unless switched on, and are not modelled.
\<close>

record company_row =
  c_symbol :: string
  c_name :: string
  c_sector :: "string option"
  c_industry :: "string option"
  c_description :: "string option"
  c_market_cap :: "real option"
  c_pe_ratio :: "real option"
  c_dividend_yield :: "real option"
  c_fifty_two_week_high :: "real option"
  c_fifty_two_week_low :: "real option"
  c_enriched_summary :: "string option"
  c_created_at :: time
  c_updated_at :: time

record stock_row =
  s_id :: nat
  s_symbol :: string
  s_date :: time
  s_open_price :: "real option"
  s_high_price :: "real option"
  s_low_price :: "real option"
  s_close_price :: "real option"
  s_volume :: "int option"

record news_row =
  n_id :: nat
  n_symbol :: string
  n_title :: string
  n_source :: "string option"
  n_author :: "string option"
  n_url :: "string option"
  n_published_at :: "time option"
  n_content :: "string option"
  n_sentiment_score :: "real option"
  n_sentiment_label :: "string option"
  n_classification :: "string option"
  n_key_insights :: "json option"
  n_market_impact :: "string option"
  n_enriched_at :: "time option"

record database =
  companies :: "company_row list"
  stock :: "stock_row list"
  news :: "news_row list"

definition empty_db :: database where
  "empty_db = \<lparr> companies = [], stock = [], news = [] \<rparr>"

text \<open>
  The dictionaries handed to the persistence functions. \<open>company_data\<close> has the keys that
  \<^verbatim>\<open>fetch_company_overview\<close> and step 5 of the pipeline produce (the data columns of
  \<^verbatim>\<open>CompanyDB\<close>); a stock record has the keys that \<^verbatim>\<open>fetch_stock_data\<close> produces.
\<close>

record company_data =
  cd_symbol :: "string field"
  cd_name :: "string field"
  cd_sector :: "string field"
  cd_industry :: "string field"
  cd_description :: "string field"
  cd_market_cap :: "real field"
  cd_pe_ratio :: "real field"
  cd_dividend_yield :: "real field"
  cd_fifty_two_week_high :: "real field"
  cd_fifty_two_week_low :: "real field"
  cd_enriched_summary :: "string field"

record stock_record =
  date :: time
  open_price :: "real option"
  high_price :: "real option"
  low_price :: "real option"
  close_price :: "real option"
  volume :: "int option"

text \<open>An autoincremented integer key: one more than the largest key in the table.\<close>

definition next_id :: "nat list \<Rightarrow> nat" where
  "next_id ids = Suc (foldr max ids 0)"

subsection \<open>What the Python runtime provides\<close>

text \<open>
  Strings are byte strings (UTF-8). \<^verbatim>\<open>str.upper()\<close> follows the Unicode case mapping, and
  the arithmetic of floats rounds its results to the nearest float. Neither is defined
  here: the functions of \<^verbatim>\<open>database.py\<close> take them from a record of the runtime's
  operations, and the properties below hold for every such record. \<open>float_mean xs\<close> is
  \<^verbatim>\<open>sum(xs) / len(xs)\<close> for a non-empty list, \<open>float_round x n\<close> is \<^verbatim>\<open>round(x, n)\<close>.

  \<open>ascii_exact\<close> is the runtime used to evaluate concrete inputs: its \<open>str_upper\<close> is
  \<open>upper\<close>, which is \<^verbatim>\<open>str.upper()\<close> on ASCII strings, and its float operations are the exact
  ones, which are Python's wherever no rounding occurs.
\<close>

record runtime =
  str_upper :: "string \<Rightarrow> string"
  float_mean :: "real list \<Rightarrow> real"
  float_round :: "real \<Rightarrow> nat \<Rightarrow> real"


subsection \<open>Company queries of \<^verbatim>\<open>database.py\<close>\<close>

definition get_company :: "runtime \<Rightarrow> database \<Rightarrow> string \<Rightarrow> company_row option" where
  "get_company rt db symbol = find (\<lambda>c. c_symbol c = str_upper rt symbol) (companies db)"


text \<open>
  The loop \<^verbatim>\<open>if hasattr(existing, key) and value is not None: setattr(existing, key, value)\<close>
  over the keys of the payload: an attribute changes exactly when its key is bound to a
  value other than \<^verbatim>\<open>None\<close>. The key \<^verbatim>\<open>"symbol"\<close> is treated like every other key.
\<close>

fun set_attr :: "'a field \<Rightarrow> 'a \<Rightarrow> 'a" where
  "set_attr (Val v) old = v"
| "set_attr Absent old = old"
| "set_attr Null old = old"

fun set_attr_opt :: "'a field \<Rightarrow> 'a option \<Rightarrow> 'a option" where
  "set_attr_opt (Val v) old = Some v"
| "set_attr_opt Absent old = old"
| "set_attr_opt Null old = old"

definition set_attrs :: "company_row \<Rightarrow> company_data \<Rightarrow> company_row" where
  "set_attrs existing d =
     existing
       \<lparr> c_symbol := set_attr (cd_symbol d) (c_symbol existing),
         c_name := set_attr (cd_name d) (c_name existing),
         c_sector := set_attr_opt (cd_sector d) (c_sector existing),
         c_industry := set_attr_opt (cd_industry d) (c_industry existing),
         c_description := set_attr_opt (cd_description d) (c_description existing),
         c_market_cap := set_attr_opt (cd_market_cap d) (c_market_cap existing),
         c_pe_ratio := set_attr_opt (cd_pe_ratio d) (c_pe_ratio existing),
         c_dividend_yield := set_attr_opt (cd_dividend_yield d) (c_dividend_yield existing),
         c_fifty_two_week_high :=
           set_attr_opt (cd_fifty_two_week_high d) (c_fifty_two_week_high existing),
         c_fifty_two_week_low :=
           set_attr_opt (cd_fifty_two_week_low d) (c_fifty_two_week_low existing),
         c_enriched_summary := set_attr_opt (cd_enriched_summary d) (c_enriched_summary existing) \<rparr>"

text \<open>
  \<^verbatim>\<open>db.commit()\<close> after the attribute loop: an \<^verbatim>\<open>UPDATE\<close> of the row whose key is the old
  symbol. It violates the primary key when the symbol changes to one that another row
  has; the session is then rolled back by the caller and the table is as before.
\<close>

definition commit_update :: "database \<Rightarrow> company_row \<Rightarrow> company_row \<Rightarrow> exn + database" where
  "commit_update db existing updated =
     (if c_symbol updated \<noteq> c_symbol existing
         \<and> list_ex (\<lambda>c. c_symbol c = c_symbol updated) (companies db)
      then Inl (Exception ''UNIQUE constraint failed: companies.symbol'')
      else Inr (db \<lparr> companies :=
                  map (\<lambda>c. if c_symbol c = c_symbol existing then updated else c)
                    (companies db) \<rparr>))"

text \<open>
  \<^verbatim>\<open>company = CompanyDB(**company_data); db.add(company); db.commit()\<close>: the row takes every
  column from the payload as it is, \<^verbatim>\<open>created_at\<close> and \<^verbatim>\<open>updated_at\<close> from their defaults.
\<close>

definition commit_insert :: "time \<Rightarrow> database \<Rightarrow> company_data \<Rightarrow> exn + database" where
  "commit_insert now db d =
     (case dict_get (cd_symbol d) of
        None \<Rightarrow> Inl (Exception ''NOT NULL constraint failed: companies.symbol'')
      | Some s \<Rightarrow>
          (case dict_get (cd_name d) of
             None \<Rightarrow> Inl (Exception ''NOT NULL constraint failed: companies.name'')
           | Some n \<Rightarrow>
               if list_ex (\<lambda>c. c_symbol c = s) (companies db)
               then Inl (Exception ''UNIQUE constraint failed: companies.symbol'')
               else Inr (db \<lparr> companies := companies db @
                  [\<lparr> c_symbol = s, c_name = n,
                     c_sector = dict_get (cd_sector d),
                     c_industry = dict_get (cd_industry d),
                     c_description = dict_get (cd_description d),
                     c_market_cap = dict_get (cd_market_cap d),
                     c_pe_ratio = dict_get (cd_pe_ratio d),
                     c_dividend_yield = dict_get (cd_dividend_yield d),
                     c_fifty_two_week_high = dict_get (cd_fifty_two_week_high d),
                     c_fifty_two_week_low = dict_get (cd_fifty_two_week_low d),
                     c_enriched_summary = dict_get (cd_enriched_summary d),
                     c_created_at = now, c_updated_at = now \<rparr>] \<rparr>)))"

text \<open>
  \<^verbatim>\<open>upsert_company\<close>. \<^verbatim>\<open>company_data.get("symbol", "").upper()\<close> raises \<^verbatim>\<open>AttributeError\<close> when
  the key is bound to \<^verbatim>\<open>None\<close>.
\<close>

definition upsert_company ::
    "runtime \<Rightarrow> time \<Rightarrow> database \<Rightarrow> company_data \<Rightarrow> exn + database" where
  "upsert_company rt now db d =
     (case dict_get_default (cd_symbol d) [] of
        None \<Rightarrow>
          Inl (Exception
            ([CHR 0x27] @ ''NoneType' object has no attribute 'upper'' @ [CHR 0x27]))
      | Some s \<Rightarrow>
          (let symbol = str_upper rt s in
           case get_company rt db symbol of
             Some existing \<Rightarrow>
               commit_update db existing ((set_attrs existing d) \<lparr> c_updated_at := now \<rparr>)
           | None \<Rightarrow> commit_insert now db d))"

subsection \<open>Stock data queries\<close>

text \<open>
  \<^verbatim>\<open>add_stock_data\<close>. The session is made with \<^verbatim>\<open>autoflush=False\<close>, so the query in the loop
  reads the table only: the rows added earlier in the same call are pending in the session
  until the \<^verbatim>\<open>db.commit()\<close> after the loop and are not seen by the query. The loop
  carries the pending records and the count (\<open>cnt\<close>).
\<close>

fun add_stock_loop ::
    "database \<Rightarrow> string \<Rightarrow> stock_record list \<Rightarrow> stock_record list \<Rightarrow> nat
      \<Rightarrow> stock_record list \<times> nat" where
  "add_stock_loop db symbol [] pending cnt = (pending, cnt)"
| "add_stock_loop db symbol (record # records) pending cnt =
     (if list_ex (\<lambda>row. s_symbol row = symbol \<and> s_date row = date record) (stock db)
      then add_stock_loop db symbol records pending cnt
      else add_stock_loop db symbol records (pending @ [record]) (cnt + 1))"

fun insert_stock :: "string \<Rightarrow> stock_row list \<Rightarrow> stock_record list \<Rightarrow> stock_row list" where
  "insert_stock symbol rows [] = rows"
| "insert_stock symbol rows (r # rs) =
     insert_stock symbol
       (rows @ [\<lparr> s_id = next_id (map s_id rows), s_symbol = symbol, s_date = date r,
                  s_open_price = open_price r, s_high_price = high_price r,
                  s_low_price = low_price r, s_close_price = close_price r,
                  s_volume = volume r \<rparr>]) rs"

definition add_stock_data ::
    "runtime \<Rightarrow> database \<Rightarrow> string \<Rightarrow> stock_record list \<Rightarrow> database \<times> nat" where
  "add_stock_data rt db symbol stock_records =
     (let symbol' = str_upper rt symbol;
          (pending, cnt) = add_stock_loop db symbol' stock_records [] 0
      in (db \<lparr> stock := insert_stock symbol' (stock db) pending \<rparr>, cnt))"

subsection \<open>News article queries\<close>

definition insert_article ::
    "runtime \<Rightarrow> database \<Rightarrow> string \<Rightarrow> article \<Rightarrow> exn + news_row \<times> database" where
  "insert_article rt db symbol a =
     (case dict_get (title a) of
        None \<Rightarrow> Inl (Exception ''NOT NULL constraint failed: news_articles.title'')
      | Some t \<Rightarrow>
          (let row = \<lparr> n_id = next_id (map n_id (news db)), n_symbol = str_upper rt symbol,
                       n_title = t, n_source = dict_get (source a),
                       n_author = dict_get (author a), n_url = dict_get (url a),
                       n_published_at = dict_get (published_at a),
                       n_content = dict_get (content a),
                       n_sentiment_score = None, n_sentiment_label = None,
                       n_classification = None, n_key_insights = None,
                       n_market_impact = None, n_enriched_at = None \<rparr>
           in Inr (row, db \<lparr> news := news db @ [row] \<rparr>)))"

text \<open>\<^verbatim>\<open>add_news_article\<close>: the duplicate check runs only for a truthy URL.\<close>

definition add_news_article ::
    "runtime \<Rightarrow> database \<Rightarrow> string \<Rightarrow> article \<Rightarrow> exn + news_row \<times> database" where
  "add_news_article rt db symbol article_data =
     (if truthy (dict_get (url article_data))
      then (case find (\<lambda>r. n_url r = dict_get (url article_data)) (news db) of
              Some existing \<Rightarrow> Inr (existing, db)
            | None \<Rightarrow> insert_article rt db symbol article_data)
      else insert_article rt db symbol article_data)"

fun update_first :: "('a \<Rightarrow> bool) \<Rightarrow> ('a \<Rightarrow> 'a) \<Rightarrow> 'a list \<Rightarrow> 'a list" where
  "update_first P f [] = []"
| "update_first P f (x # xs) = (if P x then f x # xs else x # update_first P f xs)"

definition update_article_enrichment :: "time \<Rightarrow> database \<Rightarrow> nat \<Rightarrow> enrichment \<Rightarrow> database" where
  "update_article_enrichment now db article_id e =
     db \<lparr> news :=
       update_first (\<lambda>r. n_id r = article_id)
         (\<lambda>r. r \<lparr> n_sentiment_score := Some (sentiment_score e),
                  n_sentiment_label := Some (sentiment_label e),
                  n_classification := Some (classification e),
                  n_key_insights := key_insights e,
                  n_market_impact := Some (market_impact e),
                  n_enriched_at := Some now \<rparr>)
         (news db) \<rparr>"


subsection \<open>Aggregation queries\<close>














section \<open>Verified properties\<close>

subsection \<open>Cache\<close>

lemma get_cached_keeps_cache: "snd (get_cached c now key) = c"
  by (simp add: get_cached_def split: option.splits prod.splits)

lemma run_calls_Cons: "run_calls c (a # calls) = run_calls (run_call c a) calls"
  by (simp add: run_calls_def)

lemma run_calls_lookup:
  "run_calls c calls key = (case last_set key calls of Some r \<Rightarrow> Some r | None \<Rightarrow> c key)"
proof (induction calls arbitrary: c)
  case Nil
  show ?case by (simp add: run_calls_def)
next
  case (Cons a calls)
  show ?case
  proof (cases a)
    case (SetCache k data now)
    then show ?thesis
      by (simp add: run_calls_Cons Cons.IH set_cache_def split: option.splits)
  next
    case (GetCached k now)
    then show ?thesis
      by (simp add: run_calls_Cons Cons.IH get_cached_keeps_cache split: option.splits)
  qed
qed

text \<open>
  Claim C9. After any history of cache calls starting from the empty cache, a
  \<^verbatim>\<open>_get_cached\<close> for a key at time \<open>now\<close> returns the value of the most recent
  \<^verbatim>\<open>_set_cache\<close> for that key exactly when \<open>now\<close> minus the time of that set is strictly
  less than 300 seconds, and returns nothing otherwise (also when the key was never
  set). A get at the very time of the set returns the value. A get never changes the
  cache, so an expired entry stays where it is.
\<close>

theorem cache_get_iff_within_ttl:
  "fst (get_cached (run_calls Map.empty calls) now key) =
     (case last_set key calls of
        Some (data, t0) \<Rightarrow> if now - t0 < 300 * 1000000 then Some data else None
      | None \<Rightarrow> None)
   \<and> fst (get_cached (set_cache c t0 key data) t0 key) = Some data
   \<and> snd (get_cached c now key) = c"
proof -
  have a: "fst (get_cached (run_calls Map.empty calls) now key) =
     (case last_set key calls of
        Some (data, t0) \<Rightarrow> if now - t0 < 300 * 1000000 then Some data else None
      | None \<Rightarrow> None)"
    by (simp add: get_cached_def run_calls_lookup CACHE_TTL_def timedelta_seconds_def
        split: option.splits prod.splits)
  have b: "fst (get_cached (set_cache c t0 key data) t0 key) = Some data"
    by (simp add: get_cached_def set_cache_def CACHE_TTL_def timedelta_seconds_def)
  show ?thesis
    using a b get_cached_keeps_cache [of c now key] by simp
qed

subsection \<open>Enrichment\<close>

lemma round_half_even_of_int: "round_half_even (of_int k) = k"
  by (simp add: round_half_even_def)

lemma py_round_tenths: "py_round (of_int k / 10) 2 = of_int k / 10"
proof -
  have "of_int k / 10 * 10 ^ 2 = (of_int (10 * k) :: real)" by simp
  then have "round_half_even (of_int k / 10 * 10 ^ 2) = 10 * k"
    using round_half_even_of_int [of "10 * k"] by simp
  then show ?thesis by (simp add: py_round_def)
qed

lemma article_text_Inr:
  assumes "title a \<noteq> Null" and "content a \<noteq> Null"
  shows "article_text a = Inr (lower (field_or_empty (title a) @ '' '' @ field_or_empty (content a)))"
  using assms by (cases "title a"; cases "content a") (simp_all add: article_text_def)

lemma round_half_even_between:
  assumes "of_int a \<le> x" and "x \<le> of_int b"
  shows "a \<le> round_half_even x \<and> round_half_even x \<le> b"
proof -
  have fa: "a \<le> \<lfloor>x\<rfloor>" using assms(1) by (simp add: le_floor_iff)
  have fb: "\<lfloor>x\<rfloor> \<le> b" using assms(2) by (simp add: floor_le_iff)
  show ?thesis
  proof (cases "\<lfloor>x\<rfloor> = b")
    case True
    then have "x - of_int \<lfloor>x\<rfloor> \<le> 0" using assms(2) by simp
    then have "x - of_int \<lfloor>x\<rfloor> < 1 / 2" by linarith
    then show ?thesis using fa fb by (simp add: round_half_even_def Let_def)
  next
    case False
    then have "\<lfloor>x\<rfloor> + 1 \<le> b" using fb by linarith
    then show ?thesis using fa fb by (auto simp add: round_half_even_def Let_def)
  qed
qed

lemma py_round_unit: 
  assumes "- 1 \<le> x" and "x \<le> 1"
  shows "- 1 \<le> py_round x 2 \<and> py_round x 2 \<le> 1"
proof -
  have "of_int (- 100) \<le> x * 10 ^ 2" and "x * 10 ^ 2 \<le> of_int 100"
    using assms by simp_all
  from round_half_even_between [OF this]
  have "- 100 \<le> round_half_even (x * 10 ^ 2)" and "round_half_even (x * 10 ^ 2) \<le> 100"
    by simp_all
  then have "- 100 \<le> real_of_int (round_half_even (x * 10 ^ 2))"
    and "real_of_int (round_half_even (x * 10 ^ 2)) \<le> 100"
    by linarith+
  then show ?thesis by (simp add: py_round_def field_simps)
qed

lemma mock_enrich_article_Inr:
  assumes "title a \<noteq> Null" and "content a \<noteq> Null"
  defines "tx \<equiv> lower (field_or_empty (title a) @ '' '' @ field_or_empty (content a))"
  defines "p \<equiv> keyword_count positive_keywords tx"
  defines "n \<equiv> keyword_count negative_keywords tx"
  shows "mock_enrich_article a =
      Inr \<lparr> sentiment_score =
              py_round (max (- 1) (min 1
                (if p > n then 3 / 10 + real p * (1 / 10)
                 else if n > p then - (3 / 10) - real n * (1 / 10) else 0))) 2,
            sentiment_label =
              (if p > n then ''positive'' else if n > p then ''negative'' else ''neutral''),
            classification = classify tx,
            market_impact = ''medium'',
            key_insights = Some (mock_insights (classify tx)) \<rparr>"
proof -
  have t: "article_text a = Inr tx"
    using article_text_Inr [OF assms(1,2)] by (simp add: tx_def)
  show ?thesis
    by (simp add: mock_enrich_article_def t Let_def p_def [symmetric] n_def [symmetric])
qed

text \<open>
  Claim C3, at an input where the code departs from it. The article has a title and a
  null content, as \<^verbatim>\<open>fetch_news_articles\<close> builds it when the provider sends neither
  content nor description. The fallback enrichment returns no score and no label for it:
  the concatenation of the title, a blank and \<^verbatim>\<open>None\<close> raises \<^verbatim>\<open>TypeError\<close>.
\<close>

theorem mock_enrich_raises_on_null_content:
  \<open>mock_enrich_article article_no_content =
     Inl (Exception ''can only concatenate str (not "NoneType") to str'')\<close>
  by (simp add: mock_enrich_article_def article_text_def article_no_content_def)

lemma clamp_unit_bounds: "- 1 \<le> clamp_unit x \<and> clamp_unit x \<le> 1"
  by (cases x) (simp_all add: Let_def)

lemma mock_enrich_bounds:
  assumes "mock_enrich_article a = Inr e"
  shows "- 1 \<le> sentiment_score e \<and> sentiment_score e \<le> 1"
proof (cases "article_text a")
  case (Inl x)
  with assms show ?thesis by (simp add: mock_enrich_article_def)
next
  case (Inr tx)
  with assms obtain y :: real where "sentiment_score e = py_round y 2" and "- 1 \<le> y" and "y \<le> 1"
    by (auto simp add: mock_enrich_article_def Let_def split: if_splits)
  then show ?thesis
    using py_round_unit [of y] by simp
qed

lemma normalize_result_bounds:
  assumes "normalize_result pf r = Some e"
  shows "- 1 \<le> sentiment_score e \<and> sentiment_score e \<le> 1"
  using assms clamp_unit_bounds
  by (auto simp add: normalize_result_def split: json.splits option.splits)

text \<open>
  Claim C4. Every enrichment that the fallback path or \<^verbatim>\<open>enrich_news_article\<close> (primary
  path, with its fallbacks) returns has a sentiment score between -1 and 1, whatever the
  analysis service answered.
\<close>

theorem sentiment_score_bounds:
  "(mock_enrich_article a = Inr e \<longrightarrow> - 1 \<le> sentiment_score e \<and> sentiment_score e \<le> 1) \<and>
   (enrich_news_article client outcome parse_float a company_name = Inr e' \<longrightarrow>
      - 1 \<le> sentiment_score e' \<and> sentiment_score e' \<le> 1)"
  using mock_enrich_bounds normalize_result_bounds
  by (auto simp add: enrich_news_article_def split: if_splits llm_outcome.splits option.splits)


theorem sentiment_score_bounds_witness:
  "(\<exists>e. mock_enrich_article article_regulatory = Inr e \<and>
        - 1 \<le> sentiment_score e \<and> sentiment_score e \<le> 1) \<and>
   (\<exists>e'. enrich_news_article True (LlmJson (JObj [(''sentiment_score'', JFloat (Finite 5))]))
            (\<lambda>s. None) article_regulatory ''Acme'' = Inr e' \<and>
         sentiment_score e' = 1 \<and> - 1 \<le> sentiment_score e' \<and> sentiment_score e' \<le> 1)"
proof -
  have t: "title article_regulatory \<noteq> Null" and c: "content article_regulatory \<noteq> Null"
    by (simp_all add: article_regulatory_def)
  obtain e where e: "mock_enrich_article article_regulatory = Inr e"
    using mock_enrich_article_Inr [OF t c] by blast
  obtain e' where e': "enrich_news_article True
      (LlmJson (JObj [(''sentiment_score'', JFloat (Finite 5))])) (\<lambda>s. None)
      article_regulatory ''Acme'' = Inr e'" and s: "sentiment_score e' = 1"
    by (simp add: enrich_news_article_def normalize_result_def get_lower_def)
  show ?thesis
    using e e' s
      sentiment_score_bounds [of article_regulatory e True
        "LlmJson (JObj [(''sentiment_score'', JFloat (Finite 5))])" "\<lambda>s. None"
        "''Acme''" e']
    by simp
qed

subsection \<open>News source\<close>

lemma get_mock_news_length: "length (get_mock_news clk name smb) = 5"
  by (simp add: get_mock_news_def)

lemma get_mock_news_published:
  "map published_at (get_mock_news clk name smb) =
     [Val (clk 0 - timedelta_days 1), Val (clk 1 - timedelta_days 3),
      Val (clk 2 - timedelta_days 5), Val (clk 3 - timedelta_days 2),
      Val (clk 4 - timedelta_days 4)]"
  by (simp add: get_mock_news_def)

lemma get_mock_news_fixed:
  "map (\<lambda>a. a\<lparr>published_at := Absent\<rparr>) (get_mock_news clk name smb) =
   map (\<lambda>a. a\<lparr>published_at := Absent\<rparr>) (get_mock_news clk' name smb)"
  by (simp add: get_mock_news_def)

text \<open>
  Claim C10, amended. When no news credential is configured, \<^verbatim>\<open>fetch_news_articles\<close> returns
  the five mock articles of \<^verbatim>\<open>_get_mock_news\<close> for the company name and symbol and returns the
  cache as it was; the articles do not depend on \<^verbatim>\<open>days\<close>, on \<^verbatim>\<open>max_articles\<close> or on the
  contents of the cache. Title, source, author, url and content of each article are fixed
  by the company name and the symbol; the publication times are the clock readings of the
  call minus 1, 3, 5, 2 and 4 days.
\<close>

theorem mock_news_without_credential:
  assumes "NEWS_API_KEY env = []"
  shows "fetch_news_articles env cache company_name symbol days max_articles =
           (get_mock_news (utcnow_mock env) company_name symbol, cache)
       \<and> length (fst (fetch_news_articles env cache company_name symbol days max_articles)) = 5
       \<and> fst (fetch_news_articles env cache' company_name symbol days' max_articles') =
           fst (fetch_news_articles env cache company_name symbol days max_articles)
       \<and> map (\<lambda>a. a\<lparr>published_at := Absent\<rparr>)
             (fst (fetch_news_articles env cache company_name symbol days max_articles)) =
           map (\<lambda>a. a\<lparr>published_at := Absent\<rparr>) (get_mock_news (\<lambda>i. 0) company_name symbol)
       \<and> map published_at (fst (fetch_news_articles env cache company_name symbol days max_articles)) =
           [Val (utcnow_mock env 0 - timedelta_days 1), Val (utcnow_mock env 1 - timedelta_days 3),
            Val (utcnow_mock env 2 - timedelta_days 5), Val (utcnow_mock env 3 - timedelta_days 2),
            Val (utcnow_mock env 4 - timedelta_days 4)]"
  using assms get_mock_news_fixed [of "utcnow_mock env" company_name symbol "\<lambda>i. 0"]
  by (simp add: fetch_news_articles_def get_mock_news_length get_mock_news_published)

theorem mock_news_without_credential_witness:
  "NEWS_API_KEY (env_no_key 0) = [] \<and>
   fetch_news_articles (env_no_key 0) Map.empty ''Acme'' ''ACME'' 7 10 =
     (get_mock_news (\<lambda>i. 0) ''Acme'' ''ACME'', Map.empty) \<and>
   length (fst (fetch_news_articles (env_no_key 0) Map.empty ''Acme'' ''ACME'' 7 10)) = 5 \<and>
   fst (fetch_news_articles (env_no_key 0) Map.empty ''Acme'' ''ACME'' 30 2) =
     fst (fetch_news_articles (env_no_key 0) Map.empty ''Acme'' ''ACME'' 7 10)"
proof -
  have k: "NEWS_API_KEY (env_no_key 0) = []"
    by (simp add: env_no_key_def)
  have u: "utcnow_mock (env_no_key 0) = (\<lambda>i. 0)"
    by (simp add: env_no_key_def)
  show ?thesis
    using k mock_news_without_credential [OF k, of "Map.empty" "''Acme''" "''ACME''" 7 10
      "Map.empty" 30 2]
    by (simp add: u get_mock_news_length)
qed

text \<open>
  Claim C10 as stated fails: without a credential, two calls for the same company name and
  symbol at different times return different lists (the publication times differ).
\<close>

theorem mock_news_depends_on_clock:
  "NEWS_API_KEY (env_no_key 0) = [] \<and> NEWS_API_KEY (env_no_key 1) = [] \<and>
   fst (fetch_news_articles (env_no_key 0) Map.empty ''Acme'' ''ACME'' 7 10) \<noteq>
   fst (fetch_news_articles (env_no_key 1) Map.empty ''Acme'' ''ACME'' 7 10)"
  by (simp add: env_no_key_def fetch_news_articles_def get_mock_news_def)

subsection \<open>Aggregation\<close>















end
